theory Spec2Isabelle
  imports Complex_Main "HOL-Library.Sublist" "HOL-Library.Char_ord" "HOL-Library.List_Lexorder"
begin

section \<open>The DNS lookup page of VR-CyberGaurd (src/pages/DNSLookup.tsx)\<close>

text \<open>
  The page is a React component with two operations, \<open>performDNSLookup\<close> and
  \<open>findSubdomains\<close>, and two exports. Both operations fabricate their results from
  literal tables; what varies between two runs is read from the browser: the clock
  (\<open>new Date().toISOString()\<close>), \<open>Math.random()\<close> and \<open>navigator.userAgent\<close>.
  These reads are the fields of an environment that every operation takes as an argument.
  The component's \<open>useState\<close> slots form the state, passed in and returned updated;
  every call of \<open>toast\<close> is appended to a log kept in the state.

  Strings are lists of 8-bit characters, ordered by character code
  (the order of the \<open><\<close> of the source language on ASCII strings).

  Three field names of the source occur in more than one object type and carry a
  distinguishing name here: the state slot \<open>domain\<close> is \<open>domainInput\<close>, the field
  \<open>domain\<close> of \<open>SubdomainResult\<close> is \<open>scanDomain\<close>, and the \<open>userAgent\<close> and \<open>toolInfo\<close>
  fields of the subdomain export are \<open>scanUserAgent\<close> and \<open>scanToolInfo\<close>
  (\<open>exportUserAgent\<close> is the \<open>userAgent\<close> field of the lookup export).
\<close>

subsection \<open>Data model\<close>

text \<open>\<open>interface DNSRecord { type: string; value: string; ttl?: number }\<close>: the fields
  \<open>type\<close> and \<open>value\<close> are \<open>rtype\<close> and \<open>rvalue\<close> here; the optional \<open>ttl\<close> is an option.\<close>

record DNSRecord =
  rtype :: string
  rvalue :: string
  ttl :: "nat option"

text \<open>\<open>interface DNSResults\<close>. The inner \<open>records\<close> object is kept as the object it is at
  run time: its keys in insertion order, each with its array of records.\<close>

record DNSResults =
  domain :: string
  timestamp :: string
  records :: "(string \<times> DNSRecord list) list"

datatype Status = active | inactive

text \<open>The element type of \<open>SubdomainResult.subdomains\<close>.\<close>

record Subdomain =
  subdomain :: string
  ip :: string
  status :: Status
  services :: "string list"
  lastChecked :: string

record SubdomainResult =
  scanDomain :: string
  subdomains :: "Subdomain list"
  totalFound :: nat

datatype Variant = default | destructive

record Toast =
  title :: string
  description :: string
  variant :: Variant

text \<open>What an operation reads from the browser: \<open>clock k\<close> is the result of the \<open>k\<close>-th
  evaluation of \<open>new Date().toISOString()\<close> during the call (counted from 0),
  \<open>random\<close> the result of its one call of \<open>Math.random()\<close>: the real number that the
  double returned denotes. Comparing it with 0.5 is exact; a product is rounded to a
  double again (\<open>fl64\<close> below).\<close>

record Env =
  clock :: "nat \<Rightarrow> string"
  random :: real
  userAgent :: string

text \<open>\<open>Math.random()\<close> returns a number in the half-open interval from 0 to 1.\<close>

definition Math_random_range :: "Env \<Rightarrow> bool" where
  "Math_random_range e \<longleftrightarrow> 0 \<le> random e \<and> random e < 1"

text \<open>The component state: the two input fields, the \<open>loading\<close> flag, the two result
  slots, and the log of toasts shown so far.\<close>

record State =
  domainInput :: string
  subdomainDomain :: string
  loading :: bool
  results :: "DNSResults option"
  subdomainResults :: "SubdomainResult option"
  toasts :: "Toast list"

subsection \<open>String helpers of the runtime\<close>

text \<open>\<open>String.prototype.trim\<close>: white space and line terminators, as far as they are
  8-bit characters (tab, line feed, vertical tab, form feed, carriage return, space,
  no-break space), are removed at both ends.\<close>

definition isWhiteSpace :: "char \<Rightarrow> bool" where
  "isWhiteSpace c \<longleftrightarrow> of_char c \<in> {9, 10, 11, 12, 13, 32, 160 :: nat}"

definition trim :: "string \<Rightarrow> string" where
  "trim s = rev (dropWhile isWhiteSpace (rev (dropWhile isWhiteSpace s)))"

text \<open>The character classes \<open>[a-zA-Z]\<close> and \<open>[a-zA-Z0-9.-]\<close> of \<open>domainRegex\<close>.\<close>

definition isLetter :: "char \<Rightarrow> bool" where
  "isLetter c \<longleftrightarrow> (CHR ''a'' \<le> c \<and> c \<le> CHR ''z'') \<or> (CHR ''A'' \<le> c \<and> c \<le> CHR ''Z'')"

definition isDomainChar :: "char \<Rightarrow> bool" where
  "isDomainChar c \<longleftrightarrow>
     isLetter c \<or> (CHR ''0'' \<le> c \<and> c \<le> CHR ''9'') \<or> c = CHR ''.'' \<or> c = CHR ''-''"

text \<open>\<open>/^[a-zA-Z0-9.-]+\.[a-zA-Z]{2,}$/.test(s)\<close>: some position \<open>i\<close> holds the literal dot,
  the \<open>i \<ge> 1\<close> characters before it are in the first class, and the at least two characters
  after it, up to the end of the string, are letters.\<close>

definition domainRegex_test :: "string \<Rightarrow> bool" where
  "domainRegex_test s \<longleftrightarrow>
     list_ex (\<lambda>i. 0 < i \<and> list_all isDomainChar (take i s) \<and> s ! i = CHR ''.'' \<and>
                  2 \<le> length (drop (Suc i) s) \<and> list_all isLetter (drop (Suc i) s))
             [0 ..< length s]"

text \<open>Decimal rendering of a number in a template literal.\<close>

fun string_of_nat :: "nat \<Rightarrow> string" where
  "string_of_nat n =
     (if n < 10 then [char_of (48 + n)]
      else string_of_nat (n div 10) @ [char_of (48 + n mod 10)])"

text \<open>\<open>xs.slice(0, end)\<close> for an integer \<open>end\<close>: a negative \<open>end\<close> counts from the end of the
  array, and an \<open>end\<close> beyond the length stops at the length.\<close>

definition slice0 :: "'a list \<Rightarrow> int \<Rightarrow> 'a list" where
  "slice0 xs fin =
     (if fin < 0 then take (nat (int (length xs) + fin)) xs else take (nat fin) xs)"

text \<open>\<open>obj.key.push(x)\<close> on an object kept as a list of entries: the array under \<open>key\<close>
  gets \<open>x\<close> appended; the keys and every other entry stay.\<close>

fun push_at :: "string \<Rightarrow> 'a \<Rightarrow> (string \<times> 'a list) list \<Rightarrow> (string \<times> 'a list) list" where
  "push_at k x [] = []"
| "push_at k x ((k', xs) # rest) =
     (if k' = k then (k', xs @ [x]) # rest else (k', xs) # push_at k x rest)"

subsection \<open>Number arithmetic of the runtime\<close>

text \<open>A Number is an IEEE 754 binary64 value, and the result of an arithmetic operation
  is the exact result rounded to the nearest double, ties to the even significand.
  \<open>roundTiesToEven\<close> rounds a real to an integer that way. \<open>binade n e x\<close> searches
  downwards from \<open>e\<close>, in at most \<open>n\<close> steps, for the largest exponent whose power of
  two is at most \<open>x\<close>; from 1023 with 2045 steps it stops at -1022 at the latest, the
  exponent of the subnormal numbers. The doubles around \<open>x\<close> are the multiples of
  \<open>ulp64 x\<close>, and \<open>fl64 x\<close> is the one nearest to \<open>x\<close>. Overflow to infinity (beyond
  the largest double) is left out: the one product the page computes is below 8.\<close>

definition roundTiesToEven :: "real \<Rightarrow> int" where
  "roundTiesToEven x =
     (let f = \<lfloor>x\<rfloor>; d = x - of_int f
      in if d < 1 / 2 then f else if 1 / 2 < d then f + 1 else if even f then f else f + 1)"

fun binade :: "nat \<Rightarrow> int \<Rightarrow> real \<Rightarrow> int" where
  "binade 0 e x = e"
| "binade (Suc n) e x = (if 2 powi e \<le> x then e else binade n (e - 1) x)"

definition ulp64 :: "real \<Rightarrow> real" where
  "ulp64 x = 2 powi (binade 2045 1023 \<bar>x\<bar> - 52)"

definition fl64 :: "real \<Rightarrow> real" where
  "fl64 x = of_int (roundTiesToEven (x / ulp64 x)) * ulp64 x"

subsection \<open>performDNSLookup\<close>

definition errorToast :: "string \<Rightarrow> Toast" where
  "errorToast msg = \<lparr>title = ''Error'', description = msg, variant = destructive\<rparr>"

text \<open>The object literal \<open>mockResults\<close> of lines 76 to 101.\<close>

definition mockResults :: "Env \<Rightarrow> string \<Rightarrow> DNSResults" where
  "mockResults e d =
     \<lparr>domain = d,
      timestamp = clock e 0,
      records =
        [(''A'',
            [\<lparr>rtype = ''A'', rvalue = ''93.184.216.34'', ttl = Some 3600\<rparr>,
             \<lparr>rtype = ''A'', rvalue = ''93.184.216.35'', ttl = Some 3600\<rparr>]),
         (''AAAA'',
            [\<lparr>rtype = ''AAAA'', rvalue = ''2606:2800:220:1:248:1893:25c8:1946'',
              ttl = Some 3600\<rparr>]),
         (''MX'',
            [\<lparr>rtype = ''MX'', rvalue = ''10 mail.example.com'', ttl = Some 3600\<rparr>,
             \<lparr>rtype = ''MX'', rvalue = ''20 mail2.example.com'', ttl = Some 3600\<rparr>]),
         (''NS'',
            [\<lparr>rtype = ''NS'', rvalue = ''ns1.example.com'', ttl = Some 86400\<rparr>,
             \<lparr>rtype = ''NS'', rvalue = ''ns2.example.com'', ttl = Some 86400\<rparr>]),
         (''CNAME'', []),
         (''TXT'',
            [\<lparr>rtype = ''TXT'', rvalue = ''v=spf1 include:_spf.google.com ~all'',
              ttl = Some 3600\<rparr>,
             \<lparr>rtype = ''TXT'', rvalue = ''google-site-verification=abc123def456'',
              ttl = Some 3600\<rparr>])]\<rparr>"

text \<open>Lines 103 to 106: with a draw above one half, a CNAME record is pushed.\<close>

definition randomize :: "Env \<Rightarrow> DNSResults \<Rightarrow> DNSResults" where
  "randomize e r =
     (if random e > 0.5
      then r\<lparr>records :=
               push_at ''CNAME''
                 \<lparr>rtype = ''CNAME'', rvalue = ''alias.example.com'', ttl = Some 3600\<rparr>
                 (records r)\<rparr>
      else r)"

text \<open>The whole handler. The two guards return before \<open>setLoading\<close> and \<open>setResults\<close>;
  past them nothing in the \<open>try\<close> block throws, so the \<open>catch\<close> branch is dead and the
  state after \<open>finally\<close> has \<open>loading\<close> false. The two-second \<open>setTimeout\<close> only delays.\<close>

definition performDNSLookup :: "Env \<Rightarrow> State \<Rightarrow> State" where
  "performDNSLookup e s =
     (if trim (domainInput s) = []
      then s\<lparr>toasts := toasts s @ [errorToast ''Please enter a domain name'']\<rparr>
      else if \<not> domainRegex_test (domainInput s)
      then s\<lparr>toasts := toasts s @ [errorToast ''Please enter a valid domain name'']\<rparr>
      else s\<lparr>loading := False,
              results := Some (randomize e (mockResults e (domainInput s))),
              toasts := toasts s @
                [\<lparr>title = ''DNS Lookup Complete'',
                  description = ''Successfully retrieved DNS records'',
                  variant = default\<rparr>]\<rparr>)"

subsection \<open>exportResults\<close>

text \<open>\<open>{...results, userAgent: ..., toolInfo: ...}\<close>: the result's fields, extended by two.\<close>

record DNSExport = DNSResults +
  exportUserAgent :: string
  toolInfo :: string

text \<open>The download the handler triggers: the file name and the object handed to
  \<open>JSON.stringify\<close>. \<open>s.split('T')[0]\<close> is the part of \<open>s\<close> before its first \<open>T\<close>.\<close>

record Download =
  filename :: string
  content :: DNSExport

definition exportResults :: "Env \<Rightarrow> State \<Rightarrow> Download option" where
  "exportResults e s =
     (case results s of
        None \<Rightarrow> None
      | Some r \<Rightarrow>
          Some \<lparr>filename = ''dns-lookup-'' @ domain r @ ''-'' @
                            takeWhile (\<lambda>c. c \<noteq> CHR ''T'') (clock e 0) @ ''.json'',
                content = DNSResults.extend r
                            \<lparr>exportUserAgent = userAgent e,
                             toolInfo = ''VRCyber Guard DNS Lookup Tool''\<rparr>\<rparr>)"

subsection \<open>findSubdomains\<close>

text \<open>The array literal \<open>mockSubdomains\<close> of lines 158 to 167; each element reads the clock.\<close>

definition mockSubdomains :: "Env \<Rightarrow> string \<Rightarrow> Subdomain list" where
  "mockSubdomains e d =
     [\<lparr>subdomain = ''www.'' @ d, ip = ''192.168.1.1'', status = active,
       services = [''HTTP'', ''HTTPS''], lastChecked = clock e 0\<rparr>,
      \<lparr>subdomain = ''mail.'' @ d, ip = ''192.168.1.2'', status = active,
       services = [''SMTP'', ''IMAP''], lastChecked = clock e 1\<rparr>,
      \<lparr>subdomain = ''ftp.'' @ d, ip = ''192.168.1.3'', status = inactive,
       services = [''FTP''], lastChecked = clock e 2\<rparr>,
      \<lparr>subdomain = ''api.'' @ d, ip = ''192.168.1.4'', status = active,
       services = [''HTTPS'', ''API''], lastChecked = clock e 3\<rparr>,
      \<lparr>subdomain = ''blog.'' @ d, ip = ''192.168.1.5'', status = active,
       services = [''HTTP''], lastChecked = clock e 4\<rparr>,
      \<lparr>subdomain = ''dev.'' @ d, ip = ''192.168.1.6'', status = active,
       services = [''HTTP''], lastChecked = clock e 5\<rparr>,
      \<lparr>subdomain = ''staging.'' @ d, ip = ''192.168.1.7'', status = active,
       services = [''HTTPS''], lastChecked = clock e 6\<rparr>,
      \<lparr>subdomain = ''cdn.'' @ d, ip = ''192.168.1.8'', status = active,
       services = [''HTTP'', ''HTTPS''], lastChecked = clock e 7\<rparr>]"

text \<open>Line 169: \<open>mockSubdomains.slice(0, Math.floor(Math.random() * 6) + 4)\<close>. The
  product is the double product; the floor of a double and its sum with 4 are exact.\<close>

definition foundSubdomains :: "Env \<Rightarrow> string \<Rightarrow> Subdomain list" where
  "foundSubdomains e d = slice0 (mockSubdomains e d) (\<lfloor>fl64 (random e * 6)\<rfloor> + 4)"

definition findSubdomains :: "Env \<Rightarrow> State \<Rightarrow> State" where
  "findSubdomains e s =
     (if trim (subdomainDomain s) = []
      then s\<lparr>toasts := toasts s @ [errorToast ''Please enter a domain to scan'']\<rparr>
      else
        let found = foundSubdomains e (subdomainDomain s)
        in s\<lparr>loading := False,
              subdomainResults :=
                Some \<lparr>scanDomain = subdomainDomain s, subdomains = found,
                      totalFound = length found\<rparr>,
              toasts := toasts s @
                [\<lparr>title = ''Subdomain Scan Complete'',
                  description = ''Found '' @ string_of_nat (length found) @ '' subdomains'',
                  variant = default\<rparr>]\<rparr>)"

subsection \<open>exportSubdomainResults\<close>

record SubdomainExport = SubdomainResult +
  scanUserAgent :: string
  scanToolInfo :: string

record SubdomainDownload =
  scanFilename :: string
  scanContent :: SubdomainExport

definition exportSubdomainResults :: "Env \<Rightarrow> State \<Rightarrow> SubdomainDownload option" where
  "exportSubdomainResults e s =
     (case subdomainResults s of
        None \<Rightarrow> None
      | Some r \<Rightarrow>
          Some \<lparr>scanFilename = ''subdomain-scan-'' @ scanDomain r @ ''-'' @
                                takeWhile (\<lambda>c. c \<noteq> CHR ''T'') (clock e 0) @ ''.json'',
                scanContent = SubdomainResult.extend r
                                \<lparr>scanUserAgent = userAgent e,
                                 scanToolInfo =
                                   ''VR-Cyber-Guard DNS Lookup Tool - Subdomain Scanner''\<rparr>\<rparr>)"

subsection \<open>Concrete inputs\<close>

text \<open>Three environments that differ in the random draw only, and the states the
  examples below start from.\<close>

definition env_low_draw :: Env where
  "env_low_draw =
     \<lparr>clock = (\<lambda>k. ''2024-05-01T10:00:00.000Z''), random = 1 / 4, userAgent = ''Mozilla/5.0''\<rparr>"

definition env_high_draw :: Env where
  "env_high_draw =
     \<lparr>clock = (\<lambda>k. ''2024-05-01T10:00:00.000Z''), random = 3 / 4, userAgent = ''Mozilla/5.0''\<rparr>"

definition env_top_draw :: Env where
  "env_top_draw =
     \<lparr>clock = (\<lambda>k. ''2024-05-01T10:00:00.000Z''), random = 15 / 16, userAgent = ''Mozilla/5.0''\<rparr>"

definition st_example :: State where
  "st_example =
     \<lparr>domainInput = ''example.com'', subdomainDomain = ''example.com'', loading = False,
      results = None, subdomainResults = None, toasts = []\<rparr>"

definition st_blank :: State where
  "st_blank =
     \<lparr>domainInput = ''  '', subdomainDomain = [], loading = False,
      results = Some (mockResults env_low_draw ''example.org''), subdomainResults = None,
      toasts = []\<rparr>"

definition st_malformed :: State where
  "st_malformed =
     \<lparr>domainInput = ''not a domain'', subdomainDomain = [], loading = False,
      results = Some (mockResults env_low_draw ''example.org''), subdomainResults = None,
      toasts = []\<rparr>"

definition st_done :: State where
  "st_done =
     \<lparr>domainInput = ''example.com'', subdomainDomain = [], loading = False,
      results = Some (mockResults env_low_draw ''example.com''), subdomainResults = None,
      toasts = []\<rparr>"

section \<open>Auxiliary facts\<close>

subsection \<open>Rounding to a double\<close>

lemma ulp64_pos: "0 < ulp64 x"
  by (simp add: ulp64_def)

lemma roundTiesToEven_nonneg: "0 \<le> x \<Longrightarrow> 0 \<le> roundTiesToEven x"
  by (simp add: roundTiesToEven_def Let_def)

lemma roundTiesToEven_of_int: "roundTiesToEven (of_int k) = k"
  by (simp add: roundTiesToEven_def)

lemma fl64_nonneg: "0 \<le> x \<Longrightarrow> 0 \<le> fl64 x"
  unfolding fl64_def
  using ulp64_pos [of x] roundTiesToEven_nonneg [of "x / ulp64 x"] by simp

lemma powi2_less_cancel: "(2::real) powi a < 2 powi b \<Longrightarrow> a < b"
  using power_int_increasing [of b a "2::real"] by (cases "b \<le> a") simp_all

lemma binade_found:
  "2 powi e0 \<le> x \<Longrightarrow> x < 2 powi (e0 + 1) \<Longrightarrow> e0 \<le> e \<Longrightarrow> e - int n \<le> e0 \<Longrightarrow>
     binade n e x = e0"
proof (induction n arbitrary: e)
  case 0
  then show ?case by simp
next
  case (Suc n)
  show ?case
  proof (cases "2 powi e \<le> x")
    case True
    with Suc.prems(2) have "(2::real) powi e < 2 powi (e0 + 1)" by simp
    then have "e < e0 + 1" by (rule powi2_less_cancel)
    with Suc.prems(3) True show ?thesis by simp
  next
    case False
    with Suc.prems(1) have "(2::real) powi e0 < 2 powi e" by simp
    then have "e0 < e" by (rule powi2_less_cancel)
    then have "binade n (e - 1) x = e0"
      using Suc.prems by (intro Suc.IH) simp_all
    with False show ?thesis by simp
  qed
qed

lemma binade_zero: "binade n e 0 = e - int n"
  by (induction n arbitrary: e) (simp_all add: not_le)

lemma fl64_zero: "fl64 0 = 0"
  by (simp add: fl64_def roundTiesToEven_def)

lemma fl64_exact:
  assumes "- 1022 \<le> e0" "e0 \<le> 1023" "2 powi e0 \<le> x" "x < 2 powi (e0 + 1)"
    and "x = of_int k * 2 powi (e0 - 52)"
  shows "fl64 x = x"
proof -
  have "0 < x" using assms(3) zero_less_power_int [of "2::real" e0] by linarith
  then have "binade 2045 1023 \<bar>x\<bar> = e0"
    using assms by (simp add: binade_found)
  then have u: "ulp64 x = 2 powi (e0 - 52)" by (simp add: ulp64_def)
  have "x / ulp64 x = of_int k" unfolding u using assms(5) by simp
  then have "fl64 x = of_int k * 2 powi (e0 - 52)"
    unfolding fl64_def by (simp only: roundTiesToEven_of_int u)
  then show ?thesis by (simp only: assms(5))
qed

lemma fl64_3_2: "fl64 (3 / 2) = 3 / 2"
  by (rule fl64_exact [where ?e0.0 = 0 and k = "3 * 2 ^ 51"]) (simp_all add: power_int_minus_divide)

lemma fl64_9_4: "fl64 (9 / 4) = 9 / 4"
  by (rule fl64_exact [where ?e0.0 = 1 and k = "9 * 2 ^ 49"]) (simp_all add: power_int_minus_divide)

lemma fl64_3: "fl64 3 = 3"
  by (rule fl64_exact [where ?e0.0 = 1 and k = "3 * 2 ^ 51"]) (simp_all add: power_int_minus_divide)

lemma fl64_9_2: "fl64 (9 / 2) = 9 / 2"
  by (rule fl64_exact [where ?e0.0 = 2 and k = "9 * 2 ^ 49"]) (simp_all add: power_int_minus_divide)

lemma fl64_45_8: "fl64 (45 / 8) = 45 / 8"
  by (rule fl64_exact [where ?e0.0 = 2 and k = "45 * 2 ^ 47"]) (simp_all add: power_int_minus_divide)

lemma fl64_boundary: "fl64 (6004799503160661 / 2 ^ 55 * 6) = 1"
proof -
  let ?x = "6004799503160661 / 2 ^ 55 * 6 :: real"
  have "binade 2045 1023 \<bar>?x\<bar> = - 1"
    by (rule binade_found) (simp_all add: power_int_minus_divide)
  then have u: "ulp64 ?x = 2 powi (- 53)" by (simp add: ulp64_def)
  have "?x / 2 powi (- 53) = 2 ^ 53 - 1 / 2" by (simp add: power_int_minus_divide)
  moreover have "roundTiesToEven (2 ^ 53 - 1 / 2) = 2 ^ 53"
    by (simp add: roundTiesToEven_def Let_def)
  ultimately have "roundTiesToEven (?x / ulp64 ?x) = 2 ^ 53" by (simp only: u)
  then have "fl64 ?x = of_int (2 ^ 53) * 2 powi (- 53)" unfolding fl64_def by (simp only: u)
  then show ?thesis by (simp add: power_int_minus_divide)
qed

text \<open>Where rounding matters: the double nearest to 1/6 is slightly below it, the exact
  product with 6 is 1 - 1/2^54, halfway between two doubles, and the tie goes to 1. So
  this draw gives the slice end 5, not 4; likewise the double nearest to 2/3 gives the
  product 4 and the slice end 8.\<close>

lemma fl64_boundary_high: "fl64 (6004799503160661 / 2 ^ 53 * 6) = 4"
proof -
  let ?x = "6004799503160661 / 2 ^ 53 * 6 :: real"
  have "binade 2045 1023 \<bar>?x\<bar> = 1"
    by (rule binade_found) (simp_all add: power_int_minus_divide)
  then have u: "ulp64 ?x = 2 powi (- 51)" by (simp add: ulp64_def)
  have "?x / 2 powi (- 51) = 2 ^ 53 - 1 / 2" by (simp add: power_int_minus_divide)
  moreover have "roundTiesToEven (2 ^ 53 - 1 / 2) = 2 ^ 53"
    by (simp add: roundTiesToEven_def Let_def)
  ultimately have "roundTiesToEven (?x / ulp64 ?x) = 2 ^ 53" by (simp only: u)
  then have "fl64 ?x = of_int (2 ^ 53) * 2 powi (- 51)" unfolding fl64_def by (simp only: u)
  then show ?thesis by (simp add: power_int_minus_divide)
qed

lemma slice_end_at_boundary_draws:
  "\<lfloor>fl64 (6004799503160661 / 2 ^ 55 * 6)\<rfloor> + 4 = 5"
  "\<lfloor>fl64 (6004799503160661 / 2 ^ 53 * 6)\<rfloor> + 4 = 8"
  by (simp_all only: fl64_boundary fl64_boundary_high) simp_all

subsection \<open>The two operations\<close>

lemma trim_empty_iff: "trim s = [] \<longleftrightarrow> (\<forall>c\<in>set s. isWhiteSpace c)"
proof
  assume t: "trim s = []"
  show "\<forall>c\<in>set s. isWhiteSpace c"
  proof (cases "dropWhile isWhiteSpace s")
    case Nil
    then show ?thesis by simp
  next
    case (Cons a as)
    then have "\<not> isWhiteSpace a" using hd_dropWhile [of isWhiteSpace s] by simp
    moreover from t Cons have "isWhiteSpace a" by (simp add: trim_def)
    ultimately show ?thesis by simp
  qed
next
  assume "\<forall>c\<in>set s. isWhiteSpace c"
  then have d: "dropWhile isWhiteSpace s = []" by simp
  show "trim s = []" unfolding trim_def d by simp
qed

lemma isLetter_not_space: "isLetter c \<Longrightarrow> \<not> isWhiteSpace c"
  by (auto simp: isLetter_def isWhiteSpace_def less_eq_char_def)

lemma regex_last_letter:
  assumes "domainRegex_test s" shows "s \<noteq> [] \<and> isLetter (last s)"
proof -
  from assms obtain i where i: "i < length s" "2 \<le> length (drop (Suc i) s)"
      "list_all isLetter (drop (Suc i) s)"
    by (auto simp: domainRegex_test_def list_ex_iff)
  then have ne: "drop (Suc i) s \<noteq> []" by auto
  then have "last (drop (Suc i) s) \<in> set (drop (Suc i) s)" by (rule last_in_set)
  with i have "isLetter (last (drop (Suc i) s))" by (simp add: list_all_iff)
  moreover have "last (drop (Suc i) s) = last s" using ne by simp
  ultimately show ?thesis using i by auto
qed

lemma regex_trim: "domainRegex_test s \<Longrightarrow> trim s \<noteq> []"
  using regex_last_letter [of s] isLetter_not_space [of "last s"]
  by (auto simp: trim_empty_iff)

lemma map_fst_push_at: "map fst (push_at k x m) = map fst m"
  by (induction m) auto

lemma performDNSLookup_valid:
  "domainRegex_test (domainInput s) \<Longrightarrow>
     performDNSLookup e s =
       s\<lparr>loading := False,
         results := Some (randomize e (mockResults e (domainInput s))),
         toasts := toasts s @
           [\<lparr>title = ''DNS Lookup Complete'',
             description = ''Successfully retrieved DNS records'',
             variant = default\<rparr>]\<rparr>"
  by (simp add: performDNSLookup_def regex_trim)

lemma floor_draw: "Math_random_range e \<Longrightarrow> 0 \<le> \<lfloor>fl64 (random e * 6)\<rfloor>"
  using fl64_nonneg [of "random e * 6"] by (simp add: Math_random_range_def)

lemma length_mockSubdomains: "length (mockSubdomains e d) = 8"
  by (simp add: mockSubdomains_def)

lemma foundSubdomains_take:
  "Math_random_range e \<Longrightarrow>
     foundSubdomains e d = take (nat (\<lfloor>fl64 (random e * 6)\<rfloor> + 4)) (mockSubdomains e d)"
proof -
  assume a: "Math_random_range e"
  from floor_draw [OF a] have "0 \<le> \<lfloor>fl64 (random e * 6)\<rfloor>" .
  then have "\<not> \<lfloor>fl64 (random e * 6)\<rfloor> + 4 < 0" by linarith
  then show ?thesis unfolding foundSubdomains_def slice0_def by (simp only: if_False)
qed

lemma foundSubdomains_is_take: "\<exists>n. foundSubdomains e d = take n (mockSubdomains e d)"
  by (auto simp: foundSubdomains_def slice0_def)

lemma findSubdomains_results:
  "trim (subdomainDomain s) \<noteq> [] \<Longrightarrow>
     subdomainResults (findSubdomains e s) =
       Some \<lparr>scanDomain = subdomainDomain s,
             subdomains = foundSubdomains e (subdomainDomain s),
             totalFound = length (foundSubdomains e (subdomainDomain s))\<rparr>"
  by (simp add: findSubdomains_def Let_def)

lemma fqdns_mockSubdomains:
  "map subdomain (mockSubdomains e d) =
     map (\<lambda>l. l @ ''.'' @ d) [''www'', ''mail'', ''ftp'', ''api'', ''blog'', ''dev'', ''staging'', ''cdn'']"
  by (simp add: mockSubdomains_def)

lemma distinct_fqdns_mockSubdomains: "distinct (map subdomain (mockSubdomains e d))"
  by (simp add: mockSubdomains_def)

lemma take_4: "4 \<le> n \<Longrightarrow> take n (a # b # c # d # xs) = a # b # c # d # take (n - 4) xs"
proof -
  assume "4 \<le> n"
  then obtain m where "n = 4 + m" by (auto simp: le_iff_add)
  then have "n = Suc (Suc (Suc (Suc m)))" by simp
  then show ?thesis by simp
qed

lemma take_cap: "take n xs = take (min (length xs) n) xs"
  by (simp add: min_def)

lemma found_at_least_4:
  assumes "Math_random_range e"
  shows "\<exists>n\<ge>4. foundSubdomains e d = take n (mockSubdomains e d)"
proof -
  from floor_draw [OF assms] have "0 \<le> \<lfloor>fl64 (random e * 6)\<rfloor>" .
  then have "4 \<le> nat (\<lfloor>fl64 (random e * 6)\<rfloor> + 4)" by linarith
  with foundSubdomains_take [OF assms] show ?thesis by blast
qed

lemma length_foundSubdomains:
  assumes "Math_random_range e"
  shows "length (foundSubdomains e d) = min 8 (nat (\<lfloor>fl64 (random e * 6)\<rfloor> + 4))"
  by (simp add: foundSubdomains_take [OF assms] length_mockSubdomains min.commute)

lemma exportSubdomainResults_frame:
  "subdomainResults s = Some r \<Longrightarrow>
     \<exists>x. exportSubdomainResults e s = Some x \<and>
         SubdomainResult.truncate (scanContent x) = r \<and>
         scanUserAgent (scanContent x) = userAgent e \<and>
         scanToolInfo (scanContent x) = ''VR-Cyber-Guard DNS Lookup Tool - Subdomain Scanner''"
  by (simp add: exportSubdomainResults_def SubdomainResult.extend_def
      SubdomainResult.truncate_def)

section \<open>The claims\<close>

subsection \<open>C1\<close>




subsection \<open>C2\<close>

text \<open>
  Claim C2 (output order of the scan), as the code has it. For an accepted input and a
  draw in range, the fqdns of the stored result are the first \<open>totalFound\<close> entries of the
  fixed candidate order www, mail, ftp, api, blog, dev, staging, cdn, each joined to the
  input with a dot; no sort is applied, and the sequence is never sorted
  lexicographically, since it starts with www before mail.
\<close>

theorem scan_keeps_candidate_order:
  assumes "trim (subdomainDomain s) \<noteq> []" and "Math_random_range e"
  shows "\<exists>r. subdomainResults (findSubdomains e s) = Some r \<and>
           map subdomain (subdomains r) =
             take (totalFound r)
               (map (\<lambda>l. l @ ''.'' @ subdomainDomain s)
                  [''www'', ''mail'', ''ftp'', ''api'', ''blog'', ''dev'', ''staging'', ''cdn'']) \<and>
           \<not> sorted (map subdomain (subdomains r))"
proof -
  let ?d = "subdomainDomain s"
  from found_at_least_4 [OF assms(2)] obtain n where n: "4 \<le> n"
      "foundSubdomains e ?d = take n (mockSubdomains e ?d)" by blast
  have l: "length (take n (mockSubdomains e ?d)) = min 8 n"
    by (simp add: length_mockSubdomains min.commute)
  have "map subdomain (take n (mockSubdomains e ?d)) =
          take (min 8 n) (map subdomain (mockSubdomains e ?d))"
    using take_cap [of n "mockSubdomains e ?d"] by (simp only: take_map length_mockSubdomains)
  then have a: "map subdomain (foundSubdomains e ?d) =
      take (length (foundSubdomains e ?d))
        (map (\<lambda>l. l @ ''.'' @ ?d) [''www'', ''mail'', ''ftp'', ''api'', ''blog'', ''dev'', ''staging'', ''cdn''])"
    unfolding n(2) l fqdns_mockSubdomains .
  have "\<not> sorted (map subdomain (take n (mockSubdomains e ?d)))"
    using n(1) by (simp add: mockSubdomains_def take_4)
  then have b: "\<not> sorted (map subdomain (foundSubdomains e ?d))" by (simp add: n(2))
  show ?thesis using a b by (simp add: findSubdomains_results [OF assms(1)])
qed

theorem scan_keeps_candidate_order_witness:
  "trim (subdomainDomain st_example) \<noteq> [] \<and> Math_random_range env_low_draw \<and>
   map_option (\<lambda>r. map subdomain (subdomains r)) (subdomainResults (findSubdomains env_low_draw st_example)) =
     Some [''www.example.com'', ''mail.example.com'', ''ftp.example.com'', ''api.example.com'',
           ''blog.example.com'']"
proof -
  have t: "trim (subdomainDomain st_example) \<noteq> []"
    by (simp add: st_example_def trim_def isWhiteSpace_def)
  have r: "Math_random_range env_low_draw" by (simp add: Math_random_range_def env_low_draw_def)
  have f: "\<lfloor>fl64 (random env_low_draw * 6)\<rfloor> + 4 = 5"
    by (simp add: env_low_draw_def fl64_3_2)
  have "totalFound x = 5" if "subdomainResults (findSubdomains env_low_draw st_example) = Some x" for x
    using that by (auto simp add: findSubdomains_results [OF t] length_foundSubdomains [OF r] f)
  with scan_keeps_candidate_order [OF t r] show ?thesis using t r by (auto simp: st_example_def)
qed

text \<open>The stated order fails on example.com: the five fqdns found with a draw of 1/4 are
  not sorted.\<close>

theorem scan_not_sorted_counterexample:
  "map_option (\<lambda>r. sorted (map subdomain (subdomains r)))
     (subdomainResults (findSubdomains env_low_draw st_example)) = Some False"
proof -
  have t: "trim (subdomainDomain st_example) \<noteq> []"
    by (simp add: st_example_def trim_def isWhiteSpace_def)
  have r: "Math_random_range env_low_draw" by (simp add: Math_random_range_def env_low_draw_def)
  have "\<lfloor>fl64 (random env_low_draw * 6)\<rfloor> + 4 = 5"
    by (simp add: env_low_draw_def fl64_3_2)
  then have "foundSubdomains env_low_draw d = take 5 (mockSubdomains env_low_draw d)" for d
    by (simp add: foundSubdomains_take [OF r])
  then show ?thesis
    by (simp add: findSubdomains_results [OF t] mockSubdomains_def)
qed

subsection \<open>C3\<close>

text \<open>
  Claim C3 (the example.com scenario), as the code has it. For the input example.com the
  stored result has the domain example.com, the first clock reading as its timestamp, and
  the records of the mock table: two A records, one AAAA record, two MX records, two NS
  records, two TXT records, and under CNAME either nothing (draw at most one half) or the
  one record alias.example.com (draw above one half). The only toast added is the
  success toast: no error is reported.
\<close>

theorem lookup_example_com_records:
  assumes "domainInput s = ''example.com''"
  shows "results (performDNSLookup e s) =
     Some \<lparr>domain = ''example.com'', timestamp = clock e 0,
       records =
        [(''A'',
            [\<lparr>rtype = ''A'', rvalue = ''93.184.216.34'', ttl = Some 3600\<rparr>,
             \<lparr>rtype = ''A'', rvalue = ''93.184.216.35'', ttl = Some 3600\<rparr>]),
         (''AAAA'',
            [\<lparr>rtype = ''AAAA'', rvalue = ''2606:2800:220:1:248:1893:25c8:1946'',
              ttl = Some 3600\<rparr>]),
         (''MX'',
            [\<lparr>rtype = ''MX'', rvalue = ''10 mail.example.com'', ttl = Some 3600\<rparr>,
             \<lparr>rtype = ''MX'', rvalue = ''20 mail2.example.com'', ttl = Some 3600\<rparr>]),
         (''NS'',
            [\<lparr>rtype = ''NS'', rvalue = ''ns1.example.com'', ttl = Some 86400\<rparr>,
             \<lparr>rtype = ''NS'', rvalue = ''ns2.example.com'', ttl = Some 86400\<rparr>]),
         (''CNAME'',
            if random e > 0.5
            then [\<lparr>rtype = ''CNAME'', rvalue = ''alias.example.com'', ttl = Some 3600\<rparr>]
            else []),
         (''TXT'',
            [\<lparr>rtype = ''TXT'', rvalue = ''v=spf1 include:_spf.google.com ~all'',
              ttl = Some 3600\<rparr>,
             \<lparr>rtype = ''TXT'', rvalue = ''google-site-verification=abc123def456'',
              ttl = Some 3600\<rparr>])]\<rparr> \<and>
    toasts (performDNSLookup e s) = toasts s @
      [\<lparr>title = ''DNS Lookup Complete'',
        description = ''Successfully retrieved DNS records'', variant = default\<rparr>]"
proof -
  have "domainRegex_test ''example.com''" by code_simp
  then have v: "domainRegex_test (domainInput s)" by (simp only: assms)
  show ?thesis
    by (simp add: performDNSLookup_valid [OF v] randomize_def mockResults_def assms)
qed

theorem lookup_example_com_records_witness:
  "domainInput st_example = ''example.com'' \<and>
   map_option (\<lambda>r. map_of (records r) ''CNAME'') (results (performDNSLookup env_high_draw st_example)) =
     Some (Some [\<lparr>rtype = ''CNAME'', rvalue = ''alias.example.com'', ttl = Some 3600\<rparr>])"
proof -
  have d: "domainInput st_example = ''example.com''" by (simp add: st_example_def)
  have "random env_high_draw > 0.5" by (simp add: env_high_draw_def)
  with lookup_example_com_records [OF d, of env_high_draw] show ?thesis using d by simp
qed

text \<open>The stated scenario fails: for example.com the A entry is not the single record
  93.184.216.34 and the MX entry is not the single record 10 mail.example.com.\<close>

theorem lookup_example_com_counterexample:
  "map_option (\<lambda>r. map_of (records r) ''A'') (results (performDNSLookup env_low_draw st_example)) \<noteq>
     Some (Some [\<lparr>rtype = ''A'', rvalue = ''93.184.216.34'', ttl = Some 3600\<rparr>]) \<and>
   map_option (\<lambda>r. map_of (records r) ''MX'') (results (performDNSLookup env_low_draw st_example)) \<noteq>
     Some (Some [\<lparr>rtype = ''MX'', rvalue = ''10 mail.example.com'', ttl = Some 3600\<rparr>])"
proof -
  have v: "domainRegex_test (domainInput st_example)" by (simp add: st_example_def) code_simp
  show ?thesis
    by (simp add: performDNSLookup_valid [OF v] randomize_def mockResults_def env_low_draw_def)
qed

subsection \<open>C4\<close>

text \<open>
  Claim C4 (six-key completeness). For every valid domain the lookup stores a result
  whose \<open>records\<close> object has exactly the keys A, AAAA, MX, NS, CNAME, TXT, each once,
  whatever the random draw pushed.
\<close>

theorem lookup_six_keys:
  assumes "domainRegex_test (domainInput s)"
  shows "\<exists>r. results (performDNSLookup e s) = Some r \<and>
           map fst (records r) = [''A'', ''AAAA'', ''MX'', ''NS'', ''CNAME'', ''TXT''] \<and>
           distinct (map fst (records r))"
proof -
  have k: "map fst (records (mockResults e d)) = [''A'', ''AAAA'', ''MX'', ''NS'', ''CNAME'', ''TXT'']" for d
    by (simp add: mockResults_def)
  have "map fst (records (randomize e r)) = map fst (records r)" for r
    by (simp add: randomize_def map_fst_push_at)
  with k have "map fst (records (randomize e (mockResults e d))) =
      [''A'', ''AAAA'', ''MX'', ''NS'', ''CNAME'', ''TXT'']" for d by simp
  then show ?thesis by (simp add: performDNSLookup_valid [OF assms])
qed

theorem lookup_six_keys_witness:
  "domainRegex_test (domainInput st_example) \<and>
   map_option (\<lambda>r. map fst (records r)) (results (performDNSLookup env_high_draw st_example)) =
     Some [''A'', ''AAAA'', ''MX'', ''NS'', ''CNAME'', ''TXT'']"
proof -
  have v: "domainRegex_test (domainInput st_example)" by (simp add: st_example_def) code_simp
  from lookup_six_keys [OF v, of env_high_draw] show ?thesis using v by auto
qed

subsection \<open>C5\<close>

text \<open>
  Claim C5 (count invariant). Every result the scan stores has \<open>totalFound\<close> equal to the
  length of \<open>subdomains\<close>, and no two of its records have the same fqdn. This holds for
  every value of the random draw.
\<close>

theorem scan_count_and_distinct:
  assumes "trim (subdomainDomain s) \<noteq> []"
  shows "\<exists>r. subdomainResults (findSubdomains e s) = Some r \<and>
           totalFound r = length (subdomains r) \<and>
           distinct (map subdomain (subdomains r))"
proof -
  let ?d = "subdomainDomain s"
  obtain n where n: "foundSubdomains e ?d = take n (mockSubdomains e ?d)"
    using foundSubdomains_is_take by blast
  have "distinct (take n (map subdomain (mockSubdomains e ?d)))"
    by (rule distinct_take) (rule distinct_fqdns_mockSubdomains)
  then have "distinct (map subdomain (foundSubdomains e ?d))" by (simp add: n take_map)
  then show ?thesis by (simp add: findSubdomains_results [OF assms])
qed

theorem scan_count_and_distinct_witness:
  "trim (subdomainDomain st_example) \<noteq> [] \<and>
   map_option (\<lambda>r. (totalFound r, length (subdomains r)))
     (subdomainResults (findSubdomains env_high_draw st_example)) = Some (8, 8)"
proof -
  have t: "trim (subdomainDomain st_example) \<noteq> []"
    by (simp add: st_example_def trim_def isWhiteSpace_def)
  have r: "Math_random_range env_high_draw" by (simp add: Math_random_range_def env_high_draw_def)
  have f: "\<lfloor>fl64 (random env_high_draw * 6)\<rfloor> + 4 = 8"
    by (simp add: env_high_draw_def fl64_9_2)
  have "totalFound x = 8" if "subdomainResults (findSubdomains env_high_draw st_example) = Some x" for x
    using that by (auto simp add: findSubdomains_results [OF t] length_foundSubdomains [OF r] f)
  with scan_count_and_distinct [OF t, of env_high_draw] show ?thesis using t by auto
qed

subsection \<open>C6\<close>

text \<open>
  Claim C6 (range of the count), as the code has it. For an accepted input (one that is
  not blank after trimming) and a draw in range, the count is the slice end
  \<open>Math.floor(Math.random() * 6) + 4\<close> capped at 8, the length of the mock table, and lies
  between 4 and 8 inclusive. Every count from 4 to 8 is the result of a draw: 0, 0.25,
  0.375, 0.5 and 0.75 give 4, 5, 6, 7 and 8. The draw 0.9375 gives the slice end 9, and
  the count 8 as well.
\<close>

theorem scan_count_range:
  assumes "trim (subdomainDomain s) \<noteq> []"
  shows "(Math_random_range e \<longrightarrow>
           (\<exists>r. subdomainResults (findSubdomains e s) = Some r \<and>
                 totalFound r = min 8 (nat (\<lfloor>fl64 (random e * 6)\<rfloor> + 4)) \<and>
                 4 \<le> totalFound r \<and> totalFound r \<le> 8)) \<and>
         map_option totalFound (subdomainResults (findSubdomains (e\<lparr>random := 0\<rparr>) s)) = Some 4 \<and>
         map_option totalFound (subdomainResults (findSubdomains (e\<lparr>random := 1 / 4\<rparr>) s)) = Some 5 \<and>
         map_option totalFound (subdomainResults (findSubdomains (e\<lparr>random := 3 / 8\<rparr>) s)) = Some 6 \<and>
         map_option totalFound (subdomainResults (findSubdomains (e\<lparr>random := 1 / 2\<rparr>) s)) = Some 7 \<and>
         map_option totalFound (subdomainResults (findSubdomains (e\<lparr>random := 3 / 4\<rparr>) s)) = Some 8 \<and>
         \<lfloor>fl64 (15 / 16 * 6)\<rfloor> + 4 = 9 \<and>
         map_option totalFound (subdomainResults (findSubdomains (e\<lparr>random := 15 / 16\<rparr>) s)) = Some 8"
proof -
  have count: "map_option totalFound (subdomainResults (findSubdomains (e\<lparr>random := x\<rparr>) s)) =
      Some (min 8 (nat (\<lfloor>fl64 (x * 6)\<rfloor> + 4)))" if "0 \<le> x" "x < 1" for x
  proof -
    from that have "Math_random_range (e\<lparr>random := x\<rparr>)" by (simp add: Math_random_range_def)
    from length_foundSubdomains [OF this] show ?thesis
      by (simp add: findSubdomains_results [OF assms])
  qed
  have general: "\<exists>r. subdomainResults (findSubdomains e s) = Some r \<and>
      totalFound r = min 8 (nat (\<lfloor>fl64 (random e * 6)\<rfloor> + 4)) \<and>
      4 \<le> totalFound r \<and> totalFound r \<le> 8" if r: "Math_random_range e"
  proof -
    from floor_draw [OF r] have "4 \<le> nat (\<lfloor>fl64 (random e * 6)\<rfloor> + 4)" by linarith
    then show ?thesis
      by (simp add: findSubdomains_results [OF assms] length_foundSubdomains [OF r])
  qed
  have "map_option totalFound (subdomainResults (findSubdomains (e\<lparr>random := 0\<rparr>) s)) = Some 4"
    using count [of 0] by (simp add: fl64_zero)
  moreover
  have "map_option totalFound (subdomainResults (findSubdomains (e\<lparr>random := 1 / 4\<rparr>) s)) = Some 5"
    using count [of "1 / 4"] by (simp add: fl64_3_2)
  moreover
  have "map_option totalFound (subdomainResults (findSubdomains (e\<lparr>random := 3 / 8\<rparr>) s)) = Some 6"
    using count [of "3 / 8"] by (simp add: fl64_9_4)
  moreover
  have "map_option totalFound (subdomainResults (findSubdomains (e\<lparr>random := 1 / 2\<rparr>) s)) = Some 7"
    using count [of "1 / 2"] by (simp add: fl64_3)
  moreover
  have "map_option totalFound (subdomainResults (findSubdomains (e\<lparr>random := 3 / 4\<rparr>) s)) = Some 8"
    using count [of "3 / 4"] by (simp add: fl64_9_2)
  moreover
  have "\<lfloor>fl64 (15 / 16 * 6)\<rfloor> + 4 = 9" by (simp add: fl64_45_8)
  moreover
  have "map_option totalFound (subdomainResults (findSubdomains (e\<lparr>random := 15 / 16\<rparr>) s)) = Some 8"
    using count [of "15 / 16"] by (simp add: fl64_45_8)
  ultimately show ?thesis using general by blast
qed

theorem scan_count_range_witness:
  "trim (subdomainDomain st_example) \<noteq> [] \<and> Math_random_range env_low_draw \<and>
   \<lfloor>fl64 (random env_low_draw * 6)\<rfloor> + 4 = 5 \<and>
   map_option totalFound (subdomainResults (findSubdomains env_low_draw st_example)) = Some 5"
proof -
  have t: "trim (subdomainDomain st_example) \<noteq> []"
    by (simp add: st_example_def trim_def isWhiteSpace_def)
  have r: "Math_random_range env_low_draw" by (simp add: Math_random_range_def env_low_draw_def)
  have f: "\<lfloor>fl64 (random env_low_draw * 6)\<rfloor> + 4 = 5"
    by (simp add: env_low_draw_def fl64_3_2)
  from scan_count_range [OF t, of env_low_draw] r obtain x where
    "subdomainResults (findSubdomains env_low_draw st_example) = Some x"
    "totalFound x = min 8 (nat (\<lfloor>fl64 (random env_low_draw * 6)\<rfloor> + 4))" by blast
  then have "map_option totalFound (subdomainResults (findSubdomains env_low_draw st_example)) =
      Some 5" by (simp add: f)
  with t r f show ?thesis by blast
qed

text \<open>The stated upper end is never reached: the draw 0.9375 gives the slice end 9 and a
  count of 8, and no accepted input with a draw in range gives a count of 9.\<close>

theorem scan_count_nine_counterexample:
  "\<lfloor>fl64 (random env_top_draw * 6)\<rfloor> + 4 = 9 \<and>
   map_option totalFound (subdomainResults (findSubdomains env_top_draw st_example)) = Some 8 \<and>
   \<not> (\<exists>e s. Math_random_range e \<and> trim (subdomainDomain s) \<noteq> [] \<and>
            map_option totalFound (subdomainResults (findSubdomains e s)) = Some 9)"
proof -
  have t: "trim (subdomainDomain st_example) \<noteq> []"
    by (simp add: st_example_def trim_def isWhiteSpace_def)
  have r: "Math_random_range env_top_draw" by (simp add: Math_random_range_def env_top_draw_def)
  have f: "\<lfloor>fl64 (random env_top_draw * 6)\<rfloor> + 4 = 9"
    by (simp add: env_top_draw_def fl64_45_8)
  have a: "map_option totalFound (subdomainResults (findSubdomains env_top_draw st_example)) = Some 8"
    by (simp add: findSubdomains_results [OF t] length_foundSubdomains [OF r] f)
  have "map_option totalFound (subdomainResults (findSubdomains e s)) \<noteq> Some 9"
    if "Math_random_range e" "trim (subdomainDomain s) \<noteq> []" for e s
    by (simp add: findSubdomains_results [OF that(2)] length_foundSubdomains [OF that(1)])
  with f a show ?thesis by blast
qed

subsection \<open>C7\<close>

text \<open>
  Claim C7 (rejection of invalid input). When the input is empty or white space only, or
  fails the domain pattern, \<open>performDNSLookup\<close> leaves the stored results and the loading
  flag as they were: the state it returns is the old state with one error toast added.
\<close>

theorem lookup_rejects_invalid_input:
  assumes "trim (domainInput s) = [] \<or> \<not> domainRegex_test (domainInput s)"
  shows "results (performDNSLookup e s) = results s \<and>
         loading (performDNSLookup e s) = loading s \<and>
         (\<exists>msg. performDNSLookup e s = s\<lparr>toasts := toasts s @ [errorToast msg]\<rparr>)"
  using assms by (auto simp: performDNSLookup_def)

theorem lookup_rejects_invalid_input_witness:
  "trim (domainInput st_blank) = [] \<and>
   results (performDNSLookup env_high_draw st_blank) = Some (mockResults env_low_draw ''example.org'') \<and>
   \<not> domainRegex_test (domainInput st_malformed) \<and>
   results (performDNSLookup env_high_draw st_malformed) = Some (mockResults env_low_draw ''example.org'')"
proof -
  have b: "trim (domainInput st_blank) = []"
    by (simp add: st_blank_def trim_def isWhiteSpace_def)
  have m: "\<not> domainRegex_test (domainInput st_malformed)"
    by (simp add: st_malformed_def) code_simp
  from b have b': "trim (domainInput st_blank) = [] \<or> \<not> domainRegex_test (domainInput st_blank)" ..
  from m have m': "trim (domainInput st_malformed) = [] \<or> \<not> domainRegex_test (domainInput st_malformed)" ..
  have "results st_blank = Some (mockResults env_low_draw ''example.org'')" by (simp add: st_blank_def)
  moreover have "results st_malformed = Some (mockResults env_low_draw ''example.org'')"
    by (simp add: st_malformed_def)
  ultimately show ?thesis
    using lookup_rejects_invalid_input [OF b', of env_high_draw] lookup_rejects_invalid_input [OF m', of env_high_draw] b m by simp
qed

subsection \<open>C8\<close>

text \<open>
  Claim C8 (export framing). When a lookup result \<open>r\<close> is stored, \<open>exportResults\<close> produces
  an object whose \<open>domain\<close>, \<open>timestamp\<close> and \<open>records\<close> fields are those of \<open>r\<close>, unchanged
  (cutting the object back to the three fields gives \<open>r\<close>), extended by \<open>userAgent\<close>, read
  from the browser, and \<open>toolInfo\<close>, a constant.
\<close>

theorem export_frames_result:
  assumes "results s = Some r"
  shows "\<exists>x. exportResults e s = Some x \<and>
           DNSResults.truncate (content x) = r \<and>
           domain (content x) = domain r \<and>
           timestamp (content x) = timestamp r \<and>
           records (content x) = records r \<and>
           exportUserAgent (content x) = userAgent e \<and>
           toolInfo (content x) = ''VRCyber Guard DNS Lookup Tool''"
  by (simp add: exportResults_def assms DNSResults.extend_def DNSResults.truncate_def)

theorem export_frames_result_witness:
  "results st_done = Some (mockResults env_low_draw ''example.com'') \<and>
   map_option (\<lambda>x. (filename x, DNSResults.truncate (content x), exportUserAgent (content x)))
     (exportResults env_high_draw st_done) =
   Some (''dns-lookup-example.com-2024-05-01.json'', mockResults env_low_draw ''example.com'', ''Mozilla/5.0'')"
proof -
  have a: "results st_done = Some (mockResults env_low_draw ''example.com'')" by (simp add: st_done_def)
  have f: "map_option filename (exportResults env_high_draw st_done) = Some ''dns-lookup-example.com-2024-05-01.json''"
    by (simp add: exportResults_def a mockResults_def env_high_draw_def)
  from export_frames_result [OF a, of env_high_draw] f show ?thesis using a by (auto simp: env_high_draw_def)
qed

subsection \<open>C9\<close>

text \<open>
  Claim C9 (the scan's output is a prefix of the candidates). For an accepted input \<open>d\<close>
  and a draw in range, the fqdns of the stored result are a prefix of the sequence
  www.\<open>d\<close>, mail.\<open>d\<close>, ftp.\<open>d\<close>, api.\<open>d\<close>, blog.\<open>d\<close>, dev.\<open>d\<close>, staging.\<open>d\<close>, cdn.\<open>d\<close>; the first
  four are always among them, and each fqdn is one of the eight labels, a dot, and \<open>d\<close>.
\<close>

theorem scan_prefix_of_candidates:
  assumes "trim (subdomainDomain s) \<noteq> []" and "Math_random_range e"
  shows "\<exists>r. subdomainResults (findSubdomains e s) = Some r \<and>
           prefix (map subdomain (subdomains r))
             (map (\<lambda>l. l @ ''.'' @ subdomainDomain s)
                [''www'', ''mail'', ''ftp'', ''api'', ''blog'', ''dev'', ''staging'', ''cdn'']) \<and>
           ''www.'' @ subdomainDomain s \<in> subdomain ` set (subdomains r) \<and>
           ''mail.'' @ subdomainDomain s \<in> subdomain ` set (subdomains r) \<and>
           ''ftp.'' @ subdomainDomain s \<in> subdomain ` set (subdomains r) \<and>
           ''api.'' @ subdomainDomain s \<in> subdomain ` set (subdomains r) \<and>
           (\<forall>x\<in>set (subdomains r).
              \<exists>l\<in>set [''www'', ''mail'', ''ftp'', ''api'', ''blog'', ''dev'', ''staging'', ''cdn''].
                subdomain x = l @ ''.'' @ subdomainDomain s)"
proof -
  let ?d = "subdomainDomain s"
  let ?ls = "[''www'', ''mail'', ''ftp'', ''api'', ''blog'', ''dev'', ''staging'', ''cdn'']"
  from found_at_least_4 [OF assms(2)] obtain n where n: "4 \<le> n"
      "foundSubdomains e ?d = take n (mockSubdomains e ?d)" by blast
  have "prefix (take n (map subdomain (mockSubdomains e ?d))) (map subdomain (mockSubdomains e ?d))"
    by (rule take_is_prefix)
  then have "prefix (map subdomain (take n (mockSubdomains e ?d)))
      (map subdomain (mockSubdomains e ?d))"
    by (simp only: take_map)
  then have p: "prefix (map subdomain (foundSubdomains e ?d)) (map (\<lambda>l. l @ ''.'' @ ?d) ?ls)"
    by (simp only: n(2) fqdns_mockSubdomains)
  have m: "''www.'' @ ?d \<in> subdomain ` set (foundSubdomains e ?d)"
      "''mail.'' @ ?d \<in> subdomain ` set (foundSubdomains e ?d)"
      "''ftp.'' @ ?d \<in> subdomain ` set (foundSubdomains e ?d)"
      "''api.'' @ ?d \<in> subdomain ` set (foundSubdomains e ?d)"
    using n(1) by (simp_all add: n(2) mockSubdomains_def take_4)
  have "\<exists>l\<in>set ?ls. subdomain x = l @ ''.'' @ ?d" if "x \<in> set (mockSubdomains e ?d)" for x
    using that by (auto simp: mockSubdomains_def)
  then have a: "\<forall>x\<in>set (foundSubdomains e ?d). \<exists>l\<in>set ?ls. subdomain x = l @ ''.'' @ ?d"
    unfolding n(2) by (blast dest: in_set_takeD)
  show ?thesis using p m a by (simp add: findSubdomains_results [OF assms(1)])
qed

theorem scan_prefix_of_candidates_witness:
  "trim (subdomainDomain st_example) \<noteq> [] \<and> Math_random_range env_low_draw \<and>
   (\<exists>r. subdomainResults (findSubdomains env_low_draw st_example) = Some r \<and>
        ''api.example.com'' \<in> subdomain ` set (subdomains r))"
proof -
  have t: "trim (subdomainDomain st_example) \<noteq> []"
    by (simp add: st_example_def trim_def isWhiteSpace_def)
  have r: "Math_random_range env_low_draw" by (simp add: Math_random_range_def env_low_draw_def)
  have d: "subdomainDomain st_example = ''example.com''" by (simp add: st_example_def)
  from scan_prefix_of_candidates [OF t r] obtain x where
    "subdomainResults (findSubdomains env_low_draw st_example) = Some x"
    "''api.'' @ subdomainDomain st_example \<in> subdomain ` set (subdomains x)" by blast
  then have "subdomainResults (findSubdomains env_low_draw st_example) = Some x \<and>
     ''api.example.com'' \<in> subdomain ` set (subdomains x)" by (simp add: d)
  then show ?thesis using t r by blast
qed

subsection \<open>C10\<close>

text \<open>
  Claim C10 (non-empty services and address). For an accepted input and a draw in range,
  every record of the stored result has a non-empty \<open>services\<close> array and a non-empty \<open>ip\<close>;
  the ftp record is always present, is inactive, and still lists the service FTP.
\<close>

theorem scan_records_nonempty_fields:
  assumes "trim (subdomainDomain s) \<noteq> []" and "Math_random_range e"
  shows "\<exists>r. subdomainResults (findSubdomains e s) = Some r \<and>
           (\<forall>x\<in>set (subdomains r). services x \<noteq> [] \<and> ip x \<noteq> []) \<and>
           (\<exists>x\<in>set (subdomains r).
              subdomain x = ''ftp.'' @ subdomainDomain s \<and> status x = inactive \<and>
              services x = [''FTP''])"
proof -
  let ?d = "subdomainDomain s"
  from found_at_least_4 [OF assms(2)] obtain n where n: "4 \<le> n"
      "foundSubdomains e ?d = take n (mockSubdomains e ?d)" by blast
  have "services x \<noteq> [] \<and> ip x \<noteq> []" if "x \<in> set (mockSubdomains e ?d)" for x
    using that by (auto simp: mockSubdomains_def)
  then have a: "\<forall>x\<in>set (foundSubdomains e ?d). services x \<noteq> [] \<and> ip x \<noteq> []"
    unfolding n(2) by (blast dest: in_set_takeD)
  have b: "\<exists>x\<in>set (foundSubdomains e ?d).
      subdomain x = ''ftp.'' @ ?d \<and> status x = inactive \<and> services x = [''FTP'']"
    using n(1) by (simp add: n(2) mockSubdomains_def take_4)
  show ?thesis using a b by (simp add: findSubdomains_results [OF assms(1)])
qed

theorem scan_records_nonempty_fields_witness:
  "trim (subdomainDomain st_example) \<noteq> [] \<and> Math_random_range env_high_draw \<and>
   (\<exists>r. subdomainResults (findSubdomains env_high_draw st_example) = Some r \<and>
     (\<exists>x\<in>set (subdomains r). subdomain x = ''ftp.example.com'' \<and> status x = inactive \<and>
        services x = [''FTP'']))"
proof -
  have t: "trim (subdomainDomain st_example) \<noteq> []"
    by (simp add: st_example_def trim_def isWhiteSpace_def)
  have r: "Math_random_range env_high_draw" by (simp add: Math_random_range_def env_high_draw_def)
  have d: "subdomainDomain st_example = ''example.com''" by (simp add: st_example_def)
  from scan_records_nonempty_fields [OF t r] obtain x where
    "subdomainResults (findSubdomains env_high_draw st_example) = Some x"
    "\<exists>y\<in>set (subdomains x). subdomain y = ''ftp.'' @ subdomainDomain st_example \<and>
       status y = inactive \<and> services y = [''FTP'']" by blast
  then have "subdomainResults (findSubdomains env_high_draw st_example) = Some x \<and>
    (\<exists>y\<in>set (subdomains x). subdomain y = ''ftp.example.com'' \<and>
       status y = inactive \<and> services y = [''FTP''])" by (simp add: d)
  then show ?thesis using t r by blast
qed

end
